theory Spec2Isabelle
  imports Main "HOL-Library.Sublist"
begin

section \<open>Python values\<close>

text \<open>
  The body of a PATCH request reaches \<open>update_person\<close> as a Python \<open>dict\<close> decoded from
  JSON, so its values are arbitrary JSON values: \<open>None\<close>, booleans, integers, strings,
  lists and nested dicts. JSON numbers with a fraction (Python floats) are left out of
  the value type. A dict is kept as the list of its items in iteration order; its keys
  are pairwise distinct.
\<close>

datatype pyval =
    PNone
  | PBool bool
  | PInt int
  | PStr string
  | PList "pyval list"
  | PDict "(string \<times> pyval) list"

text \<open>Python truth value testing, as used by \<open>not getattr(db_person, field)\<close>.\<close>

fun truthy :: "pyval \<Rightarrow> bool" where
  "truthy PNone = False"
| "truthy (PBool b) = b"
| "truthy (PInt i) = (i \<noteq> 0)"
| "truthy (PStr s) = (s \<noteq> [])"
| "truthy (PList xs) = (xs \<noteq> [])"
| "truthy (PDict kvs) = (kvs \<noteq> [])"

text \<open>
  Exceptions a handler can leave: the \<open>HTTPException\<close> raised by \<open>get_person_by_id\<close>, the
  \<open>AttributeError\<close> of \<open>getattr\<close> on a name the object does not have, and the errors
  \<open>db.commit()\<close> raises when the table declared by \<open>PersonDB\<close> refuses the flush.
\<close>

datatype exn =
    HTTPException nat string
  | AttributeError string
  | IntegrityError
  | DataError

section \<open>Data model\<close>

text \<open>
  \<open>PersonBase\<close> (and \<open>PersonCreate\<close>, which adds nothing) carries the four typed payload
  fields. A row of table \<open>persons\<close> (\<open>PersonDB\<close>) has the same four columns and the integer
  primary key \<open>id\<close>, all non-nullable; \<open>PersonResponse\<close> is read off a row attribute by
  attribute (\<open>from_attributes\<close>), so one record type serves both. The field \<open>id\<close> is written
  \<open>id'\<close>.
\<close>

record PersonBase =
  name :: string
  age :: int
  address :: string
  work :: string

type_synonym PersonCreate = PersonBase

record PersonDB = PersonBase +
  id' :: int

type_synonym PersonResponse = PersonDB

text \<open>
  The database: the rows of table \<open>persons\<close> in the order the store returns them, and the
  last value of the auto-increment sequence behind the primary key.
\<close>

record database =
  persons :: "PersonDB list"
  persons_id_seq :: int

definition empty_database :: database where
  "empty_database = \<lparr>persons = [], persons_id_seq = 0\<rparr>"

definition ids :: "database \<Rightarrow> int list" where
  "ids db = map id' (persons db)"

section \<open>Responses\<close>

datatype content =
    Empty
  | Person PersonResponse
  | Persons "PersonResponse list"
  | ErrorResponse string
  | Detail string
  | ValidationErrors "(string list \<times> string) list"
  | Internal_Server_Error

record response =
  status_code :: nat
  headers :: "(string \<times> string) list"
  content :: content

text \<open>\<open>error_response(msg, code)\<close>: a JSON body \<open>{"message": msg}\<close> with the given status.\<close>

definition error_response :: "string \<Rightarrow> nat \<Rightarrow> response" where
  "error_response msg code = \<lparr>status_code = code, headers = [], content = ErrorResponse msg\<rparr>"

section \<open>Decimal rendering of ids\<close>

text \<open>
  The \<open>Location\<close> header is the f-string \<open>/persons/{db_person.id}\<close>: Python's \<open>str\<close> of an
  int. The test suite reads the id back with \<open>int(location.split("/")[-1])\<close>.
\<close>

definition digit_char :: "nat \<Rightarrow> char" where
  "digit_char d = char_of (48 + d)"

fun str_nat :: "nat \<Rightarrow> string" where
  "str_nat n = (if n < 10 then [digit_char n] else str_nat (n div 10) @ [digit_char (n mod 10)])"

declare str_nat.simps [simp del]

definition str_int :: "int \<Rightarrow> string" where
  "str_int i = (if i < 0 then CHR ''-'' # str_nat (nat (- i)) else str_nat (nat i))"





section \<open>Handlers\<close>

text \<open>
  \<open>get_person_by_id\<close>: the first row with the given id, or \<open>HTTPException(404, "Not found")\<close>.
  A \<open>PersonDB\<close> object is always truthy, so \<open>not person\<close> holds exactly when no row matched.
\<close>

definition get_person_by_id :: "int \<Rightarrow> database \<Rightarrow> exn + PersonDB" where
  "get_person_by_id i db =
     (case find (\<lambda>p. id' p = i) (persons db) of
        None \<Rightarrow> Inl (HTTPException 404 ''Not found'')
      | Some person \<Rightarrow> Inr person)"

text \<open>
  A handler returns its outcome (an exception that escapes it, or the response built from
  its return value and the decorator's status code) and the database it leaves.
\<close>

definition read_person :: "int \<Rightarrow> database \<Rightarrow> (exn + response) \<times> database" where
  "read_person person_id db =
     (case get_person_by_id person_id db of
        Inl e \<Rightarrow> (Inl e, db)
      | Inr person \<Rightarrow> (Inr \<lparr>status_code = 200, headers = [], content = Person person\<rparr>, db))"

definition read_persons :: "database \<Rightarrow> (exn + response) \<times> database" where
  "read_persons db = (Inr \<lparr>status_code = 200, headers = [], content = Persons (persons db)\<rparr>, db)"

text \<open>
  \<open>create_person\<close>: the row is built from the payload (\<open>PersonDB(**person.model_dump())\<close>),
  the store assigns the next value of the sequence as its id on commit, and the \<open>Location\<close>
  header is derived from that id. The primary key refuses an id that is already in the
  table.
\<close>

definition row_of :: "PersonCreate \<Rightarrow> int \<Rightarrow> PersonDB" where
  "row_of person i =
     \<lparr>name = name person, age = age person, address = address person, work = work person,
      id' = i\<rparr>"

definition create_person :: "PersonCreate \<Rightarrow> database \<Rightarrow> (exn + response) \<times> database" where
  "create_person person db =
     (let new_id = persons_id_seq db + 1;
          db_person = row_of person new_id
      in if new_id \<in> set (ids db) then (Inl IntegrityError, db)
         else (Inr \<lparr>status_code = 201,
                    headers = [(''Location'', ''/persons/'' @ str_int (id' db_person))],
                    content = Empty\<rparr>,
               \<lparr>persons = persons db @ [db_person], persons_id_seq = new_id\<rparr>))"

subsection \<open>Partial update\<close>

text \<open>
  The loaded ORM object is a Python object: a namespace from attribute names to values.
  Besides the five columns the class body of \<open>PersonDB\<close> gives it \<open>__tablename__\<close>. Names the
  class inherits from the declarative base are not listed in the source and are not part of
  this namespace.
\<close>

type_synonym pyobject = "string \<Rightarrow> pyval option"

definition loaded :: "PersonDB \<Rightarrow> pyobject" where
  "loaded p =
     [''__tablename__'' \<mapsto> PStr ''persons'',
      ''id'' \<mapsto> PInt (id' p),
      ''name'' \<mapsto> PStr (name p),
      ''age'' \<mapsto> PInt (age p),
      ''address'' \<mapsto> PStr (address p),
      ''work'' \<mapsto> PStr (work p)]"

definition getattr :: "pyobject \<Rightarrow> string \<Rightarrow> exn + pyval" where
  "getattr obj field = (case obj field of None \<Rightarrow> Inl (AttributeError field) | Some v \<Rightarrow> Inr v)"

definition setattr :: "pyobject \<Rightarrow> string \<Rightarrow> pyval \<Rightarrow> pyobject" where
  "setattr obj field v = obj(field \<mapsto> v)"

definition hasattr :: "pyobject \<Rightarrow> string \<Rightarrow> bool" where
  "hasattr obj field = (obj field \<noteq> None)"

text \<open>
  The loop of \<open>update_person\<close> over \<open>person.items()\<close>. It ends early with the 400 response
  when the current value of a named attribute is falsy, and with \<open>AttributeError\<close> when the
  object has no such attribute; otherwise it sets the attribute on the in-memory object.
\<close>

fun update_loop :: "(string \<times> pyval) list \<Rightarrow> pyobject \<Rightarrow> (exn + response) + pyobject" where
  "update_loop [] obj = Inr obj"
| "update_loop ((field, v) # rest) obj =
     (case getattr obj field of
        Inl e \<Rightarrow> Inl (Inl e)
      | Inr current \<Rightarrow>
          if \<not> truthy current then Inl (Inr (error_response ''Invalid data'' 400))
          else update_loop rest (setattr obj field v))"

text \<open>
  \<open>db.commit()\<close> writes the object back to its row. The columns are typed and declared
  \<open>nullable=False\<close>: \<open>None\<close> violates the constraint, and a value that is neither \<open>None\<close> nor of
  the column's type is taken to be refused by the table as declared (what a particular
  engine would coerce instead is not part of the source).
\<close>

fun Integer_column :: "pyval option \<Rightarrow> exn + int" where
  "Integer_column (Some (PInt i)) = Inr i"
| "Integer_column (Some PNone) = Inl IntegrityError"
| "Integer_column _ = Inl DataError"

fun String_column :: "pyval option \<Rightarrow> exn + string" where
  "String_column (Some (PStr s)) = Inr s"
| "String_column (Some PNone) = Inl IntegrityError"
| "String_column _ = Inl DataError"

definition flush :: "pyobject \<Rightarrow> exn + PersonDB" where
  "flush obj =
     (case Integer_column (obj ''id'') of
        Inl e \<Rightarrow> Inl e
      | Inr i \<Rightarrow>
     (case String_column (obj ''name'') of
        Inl e \<Rightarrow> Inl e
      | Inr n \<Rightarrow>
     (case Integer_column (obj ''age'') of
        Inl e \<Rightarrow> Inl e
      | Inr a \<Rightarrow>
     (case String_column (obj ''address'') of
        Inl e \<Rightarrow> Inl e
      | Inr ad \<Rightarrow>
     (case String_column (obj ''work'') of
        Inl e \<Rightarrow> Inl e
      | Inr w \<Rightarrow> Inr \<lparr>name = n, age = a, address = ad, work = w, id' = i\<rparr>)))))"

text \<open>The UPDATE of the row the object was loaded from (the first with that id).\<close>

fun replace_first :: "int \<Rightarrow> PersonDB \<Rightarrow> PersonDB list \<Rightarrow> PersonDB list" where
  "replace_first i new [] = []"
| "replace_first i new (p # ps) = (if id' p = i then new # ps else p # replace_first i new ps)"

definition commit_update :: "PersonDB \<Rightarrow> pyobject \<Rightarrow> database \<Rightarrow> exn + PersonDB \<times> database" where
  "commit_update db_person obj db =
     (case flush obj of
        Inl e \<Rightarrow> Inl e
      | Inr row \<Rightarrow>
          if id' row \<noteq> id' db_person \<and> id' row \<in> set (ids db) then Inl IntegrityError
          else Inr (row, db\<lparr>persons := replace_first (id' db_person) row (persons db)\<rparr>))"

definition update_person ::
  "int \<Rightarrow> (string \<times> pyval) list \<Rightarrow> database \<Rightarrow> (exn + response) \<times> database" where
  "update_person person_id person db =
     (case get_person_by_id person_id db of
        Inl e \<Rightarrow> (Inl e, db)
      | Inr db_person \<Rightarrow>
          (case update_loop person (loaded db_person) of
             Inl early \<Rightarrow> (early, db)
           | Inr obj \<Rightarrow>
               (case commit_update db_person obj db of
                  Inl e \<Rightarrow> (Inl e, db)
                | Inr (refreshed, db') \<Rightarrow>
                    (Inr \<lparr>status_code = 200, headers = [], content = Person refreshed\<rparr>, db'))))"

subsection \<open>Delete\<close>

definition delete_person :: "int \<Rightarrow> database \<Rightarrow> (exn + response) \<times> database" where
  "delete_person person_id db =
     (case get_person_by_id person_id db of
        Inl e \<Rightarrow> (Inl e, db)
      | Inr person \<Rightarrow>
          (Inr \<lparr>status_code = 204, headers = [], content = Empty\<rparr>,
           db\<lparr>persons := filter (\<lambda>p. id' p \<noteq> id' person) (persons db)\<rparr>))"

section \<open>Request validation and dispatch\<close>

text \<open>
  Modelled from the spec: the validation of a Create body against \<open>PersonCreate\<close>. The source
  only declares the schema (\<open>name: str\<close>, \<open>age: int\<close>, \<open>address: str\<close>, \<open>work: str\<close>); the check
  itself is done by the request-parsing layer, which is not in the repository. Following
  the spec, the four fields are required and type-checked (text fields must be
  string-typed, \<open>age\<close> must be integer-typed), and a body that fails yields the list of
  \<open>(field_path, error_kind)\<close> pairs of the offending fields.
\<close>

datatype annotation = Str_type | Int_type

fun has_type :: "annotation \<Rightarrow> pyval \<Rightarrow> bool" where
  "has_type Str_type (PStr s) = True"
| "has_type Int_type (PInt i) = True"
| "has_type _ _ = False"

fun error_kind :: "annotation \<Rightarrow> string" where
  "error_kind Str_type = ''string_type''"
| "error_kind Int_type = ''int_type''"

definition check_field ::
  "(string \<times> pyval) list \<Rightarrow> string \<Rightarrow> annotation \<Rightarrow> (string list \<times> string) list" where
  "check_field kvs field ann =
     (case map_of kvs field of
        None \<Rightarrow> [([''body'', field], ''missing'')]
      | Some v \<Rightarrow> if has_type ann v then [] else [([''body'', field], error_kind ann)])"

definition validate_PersonCreate :: "pyval \<Rightarrow> (string list \<times> string) list + PersonCreate" where
  "validate_PersonCreate body =
     (case body of
        PDict kvs \<Rightarrow>
          (case (map_of kvs ''name'', map_of kvs ''age'', map_of kvs ''address'', map_of kvs ''work'') of
             (Some (PStr n), Some (PInt a), Some (PStr ad), Some (PStr w)) \<Rightarrow>
               Inr \<lparr>name = n, age = a, address = ad, work = w\<rparr>
           | _ \<Rightarrow>
               Inl (check_field kvs ''name'' Str_type @ check_field kvs ''age'' Int_type @
                    check_field kvs ''address'' Str_type @ check_field kvs ''work'' Str_type))
      | _ \<Rightarrow> Inl [([''body''], ''model_attributes_type'')])"

text \<open>
  The application: each route runs its handler; an \<open>HTTPException\<close> becomes a response with
  its status code and the body \<open>{"detail": ...}\<close>, any other exception is unhandled and
  surfaces as a 500. A Create body is validated before \<open>create_person\<close> runs.
\<close>

datatype request =
    GET_person int
  | GET_persons
  | POST_persons pyval
  | PATCH_person int "(string \<times> pyval) list"
  | DELETE_person int

fun render :: "exn + response \<Rightarrow> response" where
  "render (Inr r) = r"
| "render (Inl (HTTPException code detail)) =
     \<lparr>status_code = code, headers = [], content = Detail detail\<rparr>"
| "render (Inl _) = \<lparr>status_code = 500, headers = [], content = Internal_Server_Error\<rparr>"

fun app :: "request \<Rightarrow> database \<Rightarrow> response \<times> database" where
  "app (GET_person person_id) db = apfst render (read_person person_id db)"
| "app GET_persons db = apfst render (read_persons db)"
| "app (POST_persons body) db =
     (case validate_PersonCreate body of
        Inl errors \<Rightarrow> (\<lparr>status_code = 422, headers = [], content = ValidationErrors errors\<rparr>, db)
      | Inr person \<Rightarrow> apfst render (create_person person db))"
| "app (PATCH_person person_id person) db = apfst render (update_person person_id person db)"
| "app (DELETE_person person_id) db = apfst render (delete_person person_id db)"

section \<open>Notions used by the properties\<close>

text \<open>The current stored value of a field of the record is falsy.\<close>

definition falsy_current :: "PersonDB \<Rightarrow> string \<Rightarrow> bool" where
  "falsy_current p field = (case loaded p field of None \<Rightarrow> False | Some v \<Rightarrow> \<not> truthy v)"


text \<open>The declared type of each column of \<open>PersonDB\<close>.\<close>

definition column_type :: "string \<Rightarrow> annotation option" where
  "column_type =
     map_of [(''id'', Int_type), (''name'', Str_type), (''age'', Int_type),
             (''address'', Str_type), (''work'', Str_type)]"

text \<open>Every item of the body names a column and supplies a value of that column's type.\<close>

definition well_typed :: "(string \<times> pyval) list \<Rightarrow> bool" where
  "well_typed person =
     list_all (\<lambda>(field, v). case column_type field of None \<Rightarrow> False | Some ann \<Rightarrow> has_type ann v)
       person"

text \<open>
  The fully updated record, in the spec's words: every field named in the body takes the
  supplied value, every other field keeps its stored value.
\<close>

definition new_str :: "(string \<times> pyval) list \<Rightarrow> string \<Rightarrow> string \<Rightarrow> string" where
  "new_str person field old = (case map_of person field of Some (PStr s) \<Rightarrow> s | _ \<Rightarrow> old)"

definition new_int :: "(string \<times> pyval) list \<Rightarrow> string \<Rightarrow> int \<Rightarrow> int" where
  "new_int person field old = (case map_of person field of Some (PInt i) \<Rightarrow> i | _ \<Rightarrow> old)"

definition patched :: "PersonDB \<Rightarrow> (string \<times> pyval) list \<Rightarrow> PersonDB" where
  "patched p person =
     \<lparr>name = new_str person ''name'' (name p),
      age = new_int person ''age'' (age p),
      address = new_str person ''address'' (address p),
      work = new_str person ''work'' (work p),
      id' = new_int person ''id'' (id' p)\<rparr>"

text \<open>The fields of \<open>PersonCreate\<close> with their annotations.\<close>

definition PersonCreate_schema :: "(string \<times> annotation) list" where
  "PersonCreate_schema =
     [(''name'', Str_type), (''age'', Int_type), (''address'', Str_type), (''work'', Str_type)]"


text \<open>The value a body gives a field; a body that is not a JSON object gives none.\<close>

definition field_of :: "pyval \<Rightarrow> string \<Rightarrow> pyval option" where
  "field_of body field = (case body of PDict kvs \<Rightarrow> map_of kvs field | _ \<Rightarrow> None)"


text \<open>
  A field of the Create schema is missing from the body or wrongly typed, in the spec's
  words: text fields must be string-typed, \<open>age\<close> must be integer-typed.
\<close>

definition missing_or_wrong :: "pyval \<Rightarrow> string \<times> annotation \<Rightarrow> bool" where
  "missing_or_wrong body =
     (\<lambda>(field, ann). case field_of body field of None \<Rightarrow> True | Some v \<Rightarrow> \<not> has_type ann v)"

text \<open>The request is a PATCH whose body names \<open>id\<close>.\<close>

fun names_id :: "request \<Rightarrow> bool" where
  "names_id (PATCH_person person_id person) = (''id'' \<in> set (map fst person))"
| "names_id _ = False"

text \<open>A run of requests against the application, one after the other.\<close>

fun run :: "request list \<Rightarrow> database \<Rightarrow> database" where
  "run [] db = db"
| "run (r # rs) db = run rs (snd (app r db))"

text \<open>
  The sequence has passed every id in the table, so the next id it hands out is unused.
  This holds of the empty database and is kept by every request that does not overwrite
  an id.
\<close>

definition sequence_ahead :: "database \<Rightarrow> bool" where
  "sequence_ahead db = list_all (\<lambda>i. i \<le> persons_id_seq db) (ids db)"

text \<open>A run of Create requests, one after the other.\<close>

fun creates :: "PersonCreate list \<Rightarrow> database \<Rightarrow> (exn + response) list \<times> database" where
  "creates [] db = ([], db)"
| "creates (person # rest) db =
     (case create_person person db of
        (out, db') \<Rightarrow> (case creates rest db' of (outs, db'') \<Rightarrow> (out # outs, db'')))"

text \<open>The response to the k-th successful Create.\<close>

definition created :: "int \<Rightarrow> exn + response" where
  "created i =
     Inr \<lparr>status_code = 201, headers = [(''Location'', ''/persons/'' @ str_int i)], content = Empty\<rparr>"

subsection \<open>Data of the test suite\<close>

definition TEST_PERSON_DATA :: PersonCreate where
  "TEST_PERSON_DATA = \<lparr>name = ''John Doe'', age = 30, address = ''123'', work = ''123''\<rparr>"

definition TEST_PERSON_UPDATE_DATA :: "(string \<times> pyval) list" where
  "TEST_PERSON_UPDATE_DATA =
     [(''name'', PStr ''Jane Smith''), (''age'', PInt 25), (''address'', PStr ''456''),
      (''work'', PStr ''456'')]"

text \<open>The second payload of the test suite, as a Create payload.\<close>

definition TEST_PERSON_UPDATE :: PersonCreate where
  "TEST_PERSON_UPDATE = \<lparr>name = ''Jane Smith'', age = 25, address = ''456'', work = ''456''\<rparr>"

text \<open>The database after the first Create of the test suite, and one holding a blank record.\<close>

definition john_db :: database where
  "john_db = \<lparr>persons = [row_of TEST_PERSON_DATA 1], persons_id_seq = 1\<rparr>"




section \<open>Lookup by id\<close>

lemma get_person_by_id_Inr:
  "get_person_by_id i db = Inr p \<longleftrightarrow> find (\<lambda>q. id' q = i) (persons db) = Some p"
  by (auto simp: get_person_by_id_def split: option.splits)

lemma get_person_by_id_id: "get_person_by_id i db = Inr p \<Longrightarrow> id' p = i"
  by (auto simp: get_person_by_id_Inr find_Some_iff)

lemma get_person_by_id_absent:
  "i \<notin> set (ids db) \<Longrightarrow> get_person_by_id i db = Inl (HTTPException 404 ''Not found'')"
  by (auto simp: get_person_by_id_def ids_def find_Some_iff split: option.splits)

lemma get_person_by_id_present:
  "i \<in> set (ids db) \<Longrightarrow> \<exists>p. get_person_by_id i db = Inr p"
  by (cases "find (\<lambda>q. id' q = i) (persons db)")
     (auto simp: get_person_by_id_def ids_def find_None_iff)

lemma flush_loaded: "flush (loaded p) = Inr p"
  by (simp add: flush_def loaded_def)

lemma replace_first_same:
  "find (\<lambda>q. id' q = i) ps = Some p \<Longrightarrow> replace_first i p ps = ps"
  by (induction ps) (auto split: if_splits)

section \<open>Empty body\<close>

text \<open>
  Claim C9. For every existing person, a PATCH with an empty JSON object succeeds with 200
  and returns the record unchanged: the loop body never runs, so the falsy-field check
  never fires, no attribute is set, and the database is left as it was.
\<close>

theorem update_person_empty_body:
  assumes "get_person_by_id person_id db = Inr db_person"
  shows "update_person person_id [] db =
           (Inr \<lparr>status_code = 200, headers = [], content = Person db_person\<rparr>, db)
         \<and> app (PATCH_person person_id []) db =
           (\<lparr>status_code = 200, headers = [], content = Person db_person\<rparr>, db)"
proof -
  have "id' db_person = person_id"
    using assms by (rule get_person_by_id_id)
  moreover have "replace_first person_id db_person (persons db) = persons db"
    using assms by (simp add: get_person_by_id_Inr replace_first_same)
  ultimately have "update_person person_id [] db =
      (Inr \<lparr>status_code = 200, headers = [], content = Person db_person\<rparr>, db)"
    using assms by (simp add: update_person_def commit_update_def flush_loaded)
  then show ?thesis by simp
qed

lemma john_db_lookup: "get_person_by_id 1 john_db = Inr (row_of TEST_PERSON_DATA 1)"
  by (simp add: get_person_by_id_def john_db_def row_of_def)

text \<open>The record of the test suite, patched with an empty body.\<close>

theorem update_person_empty_body_witness:
  "get_person_by_id 1 john_db = Inr (row_of TEST_PERSON_DATA 1)
   \<and> app (PATCH_person 1 []) john_db =
       (\<lparr>status_code = 200, headers = [], content = Person (row_of TEST_PERSON_DATA 1)\<rparr>, john_db)"
  using update_person_empty_body [OF john_db_lookup] john_db_lookup by simp

section \<open>Not found\<close>

text \<open>
  Claim C5. For an id that is not in the table (never created, or already deleted), each of
  GET, PATCH and DELETE on that id answers 404 with body \<open>{"detail": "Not found"}\<close> and
  leaves the database alone. A DELETE of a stored id answers 204, and straight after it
  both GET and a second DELETE of the same id answer 404.
\<close>

theorem not_found_404:
  "(person_id \<notin> set (ids db) \<longrightarrow>
      app (GET_person person_id) db =
        (\<lparr>status_code = 404, headers = [], content = Detail ''Not found''\<rparr>, db)
      \<and> app (PATCH_person person_id person) db =
        (\<lparr>status_code = 404, headers = [], content = Detail ''Not found''\<rparr>, db)
      \<and> app (DELETE_person person_id) db =
        (\<lparr>status_code = 404, headers = [], content = Detail ''Not found''\<rparr>, db))
   \<and> (person_id \<in> set (ids db) \<longrightarrow>
        (\<exists>db'. app (DELETE_person person_id) db =
                 (\<lparr>status_code = 204, headers = [], content = Empty\<rparr>, db')
           \<and> person_id \<notin> set (ids db')
           \<and> app (GET_person person_id) db' =
                 (\<lparr>status_code = 404, headers = [], content = Detail ''Not found''\<rparr>, db')
           \<and> app (DELETE_person person_id) db' =
                 (\<lparr>status_code = 404, headers = [], content = Detail ''Not found''\<rparr>, db')))"
proof (intro conjI impI)
  assume absent: "person_id \<notin> set (ids db)"
  note nf = get_person_by_id_absent [OF absent]
  show "app (GET_person person_id) db =
        (\<lparr>status_code = 404, headers = [], content = Detail ''Not found''\<rparr>, db)"
    using nf by (simp add: read_person_def)
  show "app (PATCH_person person_id person) db =
        (\<lparr>status_code = 404, headers = [], content = Detail ''Not found''\<rparr>, db)"
    using nf by (simp add: update_person_def)
  show "app (DELETE_person person_id) db =
        (\<lparr>status_code = 404, headers = [], content = Detail ''Not found''\<rparr>, db)"
    using nf by (simp add: delete_person_def)
next
  assume "person_id \<in> set (ids db)"
  then obtain p where p: "get_person_by_id person_id db = Inr p"
    using get_person_by_id_present by blast
  then have idp: "id' p = person_id" by (rule get_person_by_id_id)
  define db' where "db' = db\<lparr>persons := filter (\<lambda>q. id' q \<noteq> person_id) (persons db)\<rparr>"
  have del: "app (DELETE_person person_id) db =
      (\<lparr>status_code = 204, headers = [], content = Empty\<rparr>, db')"
    using p idp by (simp add: delete_person_def db'_def)
  have gone: "person_id \<notin> set (ids db')"
    by (auto simp: db'_def ids_def)
  note nf = get_person_by_id_absent [OF gone]
  have "app (GET_person person_id) db' =
      (\<lparr>status_code = 404, headers = [], content = Detail ''Not found''\<rparr>, db')"
    using nf by (simp add: read_person_def)
  moreover have "app (DELETE_person person_id) db' =
      (\<lparr>status_code = 404, headers = [], content = Detail ''Not found''\<rparr>, db')"
    using nf by (simp add: delete_person_def)
  ultimately show "\<exists>db'. app (DELETE_person person_id) db =
                 (\<lparr>status_code = 204, headers = [], content = Empty\<rparr>, db')
           \<and> person_id \<notin> set (ids db')
           \<and> app (GET_person person_id) db' =
                 (\<lparr>status_code = 404, headers = [], content = Detail ''Not found''\<rparr>, db')
           \<and> app (DELETE_person person_id) db' =
                 (\<lparr>status_code = 404, headers = [], content = Detail ''Not found''\<rparr>, db')"
    using del gone by blast
qed

text \<open>Id 999 is absent from the database of the test suite; id 1 is stored and deleted.\<close>

theorem not_found_404_witness:
  "(999::int) \<notin> set (ids john_db)
   \<and> app (GET_person 999) john_db =
        (\<lparr>status_code = 404, headers = [], content = Detail ''Not found''\<rparr>, john_db)
   \<and> app (PATCH_person 999 TEST_PERSON_UPDATE_DATA) john_db =
        (\<lparr>status_code = 404, headers = [], content = Detail ''Not found''\<rparr>, john_db)
   \<and> app (DELETE_person 999) john_db =
        (\<lparr>status_code = 404, headers = [], content = Detail ''Not found''\<rparr>, john_db)
   \<and> (1::int) \<in> set (ids john_db)
   \<and> (\<exists>db'. app (DELETE_person 1) john_db =
                 (\<lparr>status_code = 204, headers = [], content = Empty\<rparr>, db')
           \<and> (1::int) \<notin> set (ids db')
           \<and> app (GET_person 1) db' =
                 (\<lparr>status_code = 404, headers = [], content = Detail ''Not found''\<rparr>, db')
           \<and> app (DELETE_person 1) db' =
                 (\<lparr>status_code = 404, headers = [], content = Detail ''Not found''\<rparr>, db'))"
proof -
  have a: "(999::int) \<notin> set (ids john_db)" and b: "(1::int) \<in> set (ids john_db)"
    by (simp_all add: ids_def john_db_def row_of_def)
  show ?thesis
    using a b not_found_404 [of 999 john_db TEST_PERSON_UPDATE_DATA]
      not_found_404 [of 1 john_db "[]"]
    by blast
qed

section \<open>The update loop\<close>


lemma update_loop_distinct:
  assumes "distinct (map fst person)" and "\<forall>f\<in>set (map fst person). hasattr obj f"
  shows "update_loop person obj =
           (if \<exists>f\<in>set (map fst person). \<not> truthy (the (obj f))
            then Inl (Inr (error_response ''Invalid data'' 400))
            else Inr (obj ++ map_of person))"
  using assms
proof (induction person arbitrary: obj)
  case Nil
  then show ?case by simp
next
  case (Cons item rest)
  obtain f v where item: "item = (f, v)" by (cases item)
  from Cons.prems item obtain cur where cur: "obj f = Some cur"
    by (auto simp: hasattr_def)
  show ?case
  proof (cases "truthy cur")
    case False
    then show ?thesis using item cur by (simp add: getattr_def)
  next
    case True
    have notin: "f \<notin> set (map fst rest)" and dist: "distinct (map fst rest)"
      using Cons.prems(1) item by auto
    have attrs: "\<forall>g\<in>set (map fst rest). hasattr (setattr obj f v) g"
      using Cons.prems(2) by (auto simp: hasattr_def setattr_def)
    have same: "\<forall>g\<in>set (map fst rest). setattr obj f v g = obj g"
      using notin by (auto simp: setattr_def)
    have add: "setattr obj f v ++ map_of rest = obj ++ map_of (item # rest)"
    proof
      fix k
      show "(setattr obj f v ++ map_of rest) k = (obj ++ map_of (item # rest)) k"
        using notin item
        by (cases "map_of rest k")
           (auto simp: setattr_def map_add_def dest: map_of_SomeD intro: rev_image_eqI)
    qed
    have "update_loop (item # rest) obj = update_loop rest (setattr obj f v)"
      using item cur True by (simp add: getattr_def)
    also have "\<dots> = (if \<exists>g\<in>set (map fst rest). \<not> truthy (the (setattr obj f v g))
            then Inl (Inr (error_response ''Invalid data'' 400))
            else Inr (setattr obj f v ++ map_of rest))"
      using Cons.IH [OF dist attrs] .
    also have "\<dots> = (if \<exists>g\<in>set (map fst (item # rest)). \<not> truthy (the (obj g))
            then Inl (Inr (error_response ''Invalid data'' 400))
            else Inr (obj ++ map_of (item # rest)))"
      using same add item cur True by auto
    finally show ?thesis .
  qed
qed

lemma update_loop_untouched:
  "update_loop person obj = Inr obj' \<Longrightarrow> f \<notin> set (map fst person) \<Longrightarrow> obj' f = obj f"
  by (induction person obj rule: update_loop.induct)
     (auto simp: getattr_def setattr_def split: option.splits if_splits)





section \<open>Commit of an update\<close>

lemma well_typed_lookup:
  "well_typed person \<Longrightarrow> map_of person f = Some v \<Longrightarrow>
     \<exists>ann. column_type f = Some ann \<and> has_type ann v"
  by (auto simp: well_typed_def list_all_iff dest!: map_of_SomeD split: option.splits)

lemma has_type_Str: "has_type Str_type v \<longleftrightarrow> (\<exists>s. v = PStr s)"
  by (cases v) auto

lemma has_type_Int: "has_type Int_type v \<longleftrightarrow> (\<exists>i. v = PInt i)"
  by (cases v) auto

lemma String_column_patched:
  assumes "well_typed person" and "column_type f = Some Str_type" and "loaded p f = Some (PStr old)"
  shows "String_column ((loaded p ++ map_of person) f) = Inr (new_str person f old)"
proof (cases "map_of person f")
  case None
  then show ?thesis using assms(3) by (simp add: map_add_def new_str_def)
next
  case (Some v)
  with well_typed_lookup [OF assms(1) Some] assms(2) obtain s where "v = PStr s"
    by (auto simp: has_type_Str)
  with Some show ?thesis by (simp add: map_add_def new_str_def)
qed

lemma Integer_column_patched:
  assumes "well_typed person" and "column_type f = Some Int_type" and "loaded p f = Some (PInt old)"
  shows "Integer_column ((loaded p ++ map_of person) f) = Inr (new_int person f old)"
proof (cases "map_of person f")
  case None
  then show ?thesis using assms(3) by (simp add: map_add_def new_int_def)
next
  case (Some v)
  with well_typed_lookup [OF assms(1) Some] assms(2) obtain i where "v = PInt i"
    by (auto simp: has_type_Int)
  with Some show ?thesis by (simp add: map_add_def new_int_def)
qed

lemma flush_patched:
  assumes "well_typed person"
  shows "flush (loaded p ++ map_of person) = Inr (patched p person)"
proof -
  have "Integer_column ((loaded p ++ map_of person) ''id'') = Inr (new_int person ''id'' (id' p))"
    by (rule Integer_column_patched [OF assms]) (simp_all add: column_type_def loaded_def)
  moreover have "String_column ((loaded p ++ map_of person) ''name'') = Inr (new_str person ''name'' (name p))"
    by (rule String_column_patched [OF assms]) (simp_all add: column_type_def loaded_def)
  moreover have "Integer_column ((loaded p ++ map_of person) ''age'') = Inr (new_int person ''age'' (age p))"
    by (rule Integer_column_patched [OF assms]) (simp_all add: column_type_def loaded_def)
  moreover have "String_column ((loaded p ++ map_of person) ''address'') = Inr (new_str person ''address'' (address p))"
    by (rule String_column_patched [OF assms]) (simp_all add: column_type_def loaded_def)
  moreover have "String_column ((loaded p ++ map_of person) ''work'') = Inr (new_str person ''work'' (work p))"
    by (rule String_column_patched [OF assms]) (simp_all add: column_type_def loaded_def)
  ultimately show ?thesis
    by (simp add: flush_def patched_def)
qed

lemma Integer_column_error:
  "Integer_column x = Inl e \<Longrightarrow> e = IntegrityError \<or> e = DataError"
  by (induction x rule: Integer_column.induct) auto

lemma String_column_error:
  "String_column x = Inl e \<Longrightarrow> e = IntegrityError \<or> e = DataError"
  by (induction x rule: String_column.induct) auto

lemma flush_error: "flush obj = Inl e \<Longrightarrow> e = IntegrityError \<or> e = DataError"
  unfolding flush_def
  by (auto split: sum.splits dest: Integer_column_error String_column_error)

lemma commit_update_error:
  "commit_update p obj db = Inl e \<Longrightarrow> e = IntegrityError \<or> e = DataError"
  by (auto simp: commit_update_def split: sum.splits if_splits dest: flush_error)

lemma falsy_current_the:
  "hasattr (loaded p) f \<Longrightarrow> falsy_current p f \<longleftrightarrow> \<not> truthy (the (loaded p f))"
  by (auto simp: hasattr_def falsy_current_def)

section \<open>Partial update: the truthiness gate\<close>

text \<open>
  Claim C1, as the spec states it: the PATCH endpoint answers 400 exactly when a field named
  in the body has a falsy current value, and otherwise 200 with the fully updated record.
  The second half fails: the handler never looks at the new values, so a body that assigns
  \<open>null\<close> to a field whose current value is truthy passes the gate and then violates the
  non-nullable column on commit. The exception is not handled: the answer is neither 400
  nor 200, and nothing is written.
\<close>

theorem update_person_null_value_counterexample:
  "get_person_by_id 1 john_db = Inr (row_of TEST_PERSON_DATA 1)
   \<and> \<not> falsy_current (row_of TEST_PERSON_DATA 1) ''name''
   \<and> app (PATCH_person 1 [(''name'', PNone)]) john_db =
       (\<lparr>status_code = 500, headers = [], content = Internal_Server_Error\<rparr>, john_db)"
  by (simp add: get_person_by_id_def john_db_def row_of_def TEST_PERSON_DATA_def
      falsy_current_def loaded_def update_person_def getattr_def setattr_def
      commit_update_def flush_def)

text \<open>
  Claim C1, amended. For a stored person and a body (a dict, so with distinct keys) over
  the attributes of the record: the answer is 400 with \<open>{"message": "Invalid data"}\<close> if
  and only if some field named in the body has a falsy current value. When no named
  field is falsy, every supplied value has the type of its column and a supplied id is not
  the id of another row, the answer is 200 with the fully updated record, which is also
  what the table then holds.
\<close>

theorem update_person_400_iff_falsy_current:
  assumes "get_person_by_id person_id db = Inr db_person"
    and "distinct (map fst person)"
    and "\<forall>field\<in>set (map fst person). hasattr (loaded db_person) field"
  shows "(fst (app (PATCH_person person_id person) db) =
            \<lparr>status_code = 400, headers = [], content = ErrorResponse ''Invalid data''\<rparr>
          \<longleftrightarrow> (\<exists>field\<in>set (map fst person). falsy_current db_person field))
       \<and> ((\<forall>field\<in>set (map fst person). \<not> falsy_current db_person field)
            \<and> well_typed person
            \<and> (id' (patched db_person person) = person_id
                \<or> id' (patched db_person person) \<notin> set (ids db))
          \<longrightarrow> app (PATCH_person person_id person) db =
                (\<lparr>status_code = 200, headers = [], content = Person (patched db_person person)\<rparr>,
                 db\<lparr>persons := replace_first person_id (patched db_person person) (persons db)\<rparr>))"
proof -
  let ?obj = "loaded db_person"
  let ?falsy = "\<exists>field\<in>set (map fst person). falsy_current db_person field"
  have idp: "id' db_person = person_id"
    using assms(1) by (rule get_person_by_id_id)
  have same: "?falsy \<longleftrightarrow> (\<exists>f\<in>set (map fst person). \<not> truthy (the (?obj f)))"
    using assms(3) by (auto simp: falsy_current_the)
  have loop: "update_loop person ?obj =
      (if ?falsy then Inl (Inr (error_response ''Invalid data'' 400))
       else Inr (?obj ++ map_of person))"
    using update_loop_distinct [OF assms(2,3)] same by simp
  have rejected: "fst (app (PATCH_person person_id person) db) =
      \<lparr>status_code = 400, headers = [], content = ErrorResponse ''Invalid data''\<rparr>" if ?falsy
    using that loop assms(1) by (simp add: update_person_def error_response_def)
  have status: "status_code (fst (app (PATCH_person person_id person) db)) \<noteq> 400" if "\<not> ?falsy"
  proof -
    have "update_person person_id person db =
        (case commit_update db_person (?obj ++ map_of person) db of
           Inl e \<Rightarrow> (Inl e, db)
         | Inr (refreshed, db') \<Rightarrow>
             (Inr \<lparr>status_code = 200, headers = [], content = Person refreshed\<rparr>, db'))"
      using that loop assms(1) by (simp add: update_person_def)
    then show ?thesis
      by (cases "commit_update db_person (?obj ++ map_of person) db")
         (auto dest: commit_update_error)
  qed
  have first: "fst (app (PATCH_person person_id person) db) =
      \<lparr>status_code = 400, headers = [], content = ErrorResponse ''Invalid data''\<rparr> \<longleftrightarrow> ?falsy"
    using rejected status by (cases ?falsy) auto
  have second: "app (PATCH_person person_id person) db =
      (\<lparr>status_code = 200, headers = [], content = Person (patched db_person person)\<rparr>,
       db\<lparr>persons := replace_first person_id (patched db_person person) (persons db)\<rparr>)"
    if none: "\<forall>field\<in>set (map fst person). \<not> falsy_current db_person field"
      and wt: "well_typed person"
      and key: "id' (patched db_person person) = person_id
                \<or> id' (patched db_person person) \<notin> set (ids db)"
  proof -
    have "update_loop person ?obj = Inr (?obj ++ map_of person)"
      using loop none by auto
    moreover have "commit_update db_person (?obj ++ map_of person) db =
        Inr (patched db_person person,
             db\<lparr>persons := replace_first person_id (patched db_person person) (persons db)\<rparr>)"
      using key idp by (auto simp: commit_update_def flush_patched [OF wt])
    ultimately show ?thesis
      using assms(1) by (simp add: update_person_def)
  qed
  show ?thesis using first second by blast
qed

text \<open>
  The update of the test suite: all four fields of the stored record are truthy and the
  new values are typed as their columns.
\<close>

theorem update_person_400_iff_falsy_current_witness:
  "get_person_by_id 1 john_db = Inr (row_of TEST_PERSON_DATA 1)
   \<and> distinct (map fst TEST_PERSON_UPDATE_DATA)
   \<and> list_all (hasattr (loaded (row_of TEST_PERSON_DATA 1))) (map fst TEST_PERSON_UPDATE_DATA)
   \<and> list_all (\<lambda>field. \<not> falsy_current (row_of TEST_PERSON_DATA 1) field)
         (map fst TEST_PERSON_UPDATE_DATA)
   \<and> well_typed TEST_PERSON_UPDATE_DATA
   \<and> id' (patched (row_of TEST_PERSON_DATA 1) TEST_PERSON_UPDATE_DATA) = 1
   \<and> fst (app (PATCH_person 1 TEST_PERSON_UPDATE_DATA) john_db) \<noteq>
       \<lparr>status_code = 400, headers = [], content = ErrorResponse ''Invalid data''\<rparr>
   \<and> app (PATCH_person 1 TEST_PERSON_UPDATE_DATA) john_db =
       (\<lparr>status_code = 200, headers = [],
         content = Person \<lparr>name = ''Jane Smith'', age = 25, address = ''456'', work = ''456'',
                           id' = 1\<rparr>\<rparr>,
        \<lparr>persons = [\<lparr>name = ''Jane Smith'', age = 25, address = ''456'', work = ''456'',
                      id' = 1\<rparr>],
         persons_id_seq = 1\<rparr>)"
proof -
  have a: "distinct (map fst TEST_PERSON_UPDATE_DATA)"
    by (simp add: TEST_PERSON_UPDATE_DATA_def)
  have b': "list_all (hasattr (loaded (row_of TEST_PERSON_DATA 1))) (map fst TEST_PERSON_UPDATE_DATA)"
    by (simp add: TEST_PERSON_UPDATE_DATA_def hasattr_def loaded_def)
  then have b: "\<forall>field\<in>set (map fst TEST_PERSON_UPDATE_DATA).
      hasattr (loaded (row_of TEST_PERSON_DATA 1)) field"
    by (simp add: list_all_iff)
  have c': "list_all (\<lambda>field. \<not> falsy_current (row_of TEST_PERSON_DATA 1) field)
      (map fst TEST_PERSON_UPDATE_DATA)"
    by (simp add: TEST_PERSON_UPDATE_DATA_def falsy_current_def loaded_def row_of_def
        TEST_PERSON_DATA_def)
  then have c: "\<forall>field\<in>set (map fst TEST_PERSON_UPDATE_DATA).
      \<not> falsy_current (row_of TEST_PERSON_DATA 1) field"
    by (simp add: list_all_iff)
  have d: "well_typed TEST_PERSON_UPDATE_DATA"
    by (simp add: TEST_PERSON_UPDATE_DATA_def well_typed_def column_type_def)
  have e: "patched (row_of TEST_PERSON_DATA 1) TEST_PERSON_UPDATE_DATA =
      \<lparr>name = ''Jane Smith'', age = 25, address = ''456'', work = ''456'', id' = 1\<rparr>"
    by (simp add: patched_def new_str_def new_int_def TEST_PERSON_UPDATE_DATA_def row_of_def
        TEST_PERSON_DATA_def)
  have f: "john_db\<lparr>persons := replace_first 1
        \<lparr>name = ''Jane Smith'', age = 25, address = ''456'', work = ''456'', id' = 1\<rparr>
        (persons john_db)\<rparr> =
      \<lparr>persons = [\<lparr>name = ''Jane Smith'', age = 25, address = ''456'', work = ''456'',
                    id' = 1\<rparr>],
       persons_id_seq = 1\<rparr>"
    by (simp add: john_db_def row_of_def)
  have g: "fst (app (PATCH_person 1 TEST_PERSON_UPDATE_DATA) john_db) \<noteq>
       \<lparr>status_code = 400, headers = [], content = ErrorResponse ''Invalid data''\<rparr>"
    using update_person_400_iff_falsy_current [OF john_db_lookup a b] c by blast
  have h: "app (PATCH_person 1 TEST_PERSON_UPDATE_DATA) john_db =
       (\<lparr>status_code = 200, headers = [],
         content = Person \<lparr>name = ''Jane Smith'', age = 25, address = ''456'', work = ''456'',
                           id' = 1\<rparr>\<rparr>,
        \<lparr>persons = [\<lparr>name = ''Jane Smith'', age = 25, address = ''456'', work = ''456'',
                      id' = 1\<rparr>],
         persons_id_seq = 1\<rparr>)"
    using update_person_400_iff_falsy_current [OF john_db_lookup a b] c d e f by auto
  show ?thesis
    using john_db_lookup a b' c' d e g h by simp
qed



section \<open>Partial update: unknown keys\<close>






section \<open>What an update does to the table\<close>

lemma ids_replace_first:
  "id' row = i \<Longrightarrow> map id' (replace_first i row ps) = map id' ps"
  by (induction ps) auto


lemma Integer_column_Inr: "Integer_column x = Inr i \<longleftrightarrow> x = Some (PInt i)"
  by (induction x rule: Integer_column.induct) auto

lemma String_column_Inr: "String_column x = Inr s \<longleftrightarrow> x = Some (PStr s)"
  by (induction x rule: String_column.induct) auto

lemma flush_Inr:
  "flush obj = Inr row \<longleftrightarrow>
     obj ''id'' = Some (PInt (id' row)) \<and> obj ''name'' = Some (PStr (name row)) \<and>
     obj ''age'' = Some (PInt (age row)) \<and> obj ''address'' = Some (PStr (address row)) \<and>
     obj ''work'' = Some (PStr (work row))"
  unfolding flush_def
  by (cases row) (auto split: sum.splits simp: Integer_column_Inr String_column_Inr)

lemma update_person_cases:
  assumes "get_person_by_id person_id db = Inr db_person"
  shows "snd (update_person person_id person db) = db
       \<or> (\<exists>obj row. update_loop person (loaded db_person) = Inr obj \<and> flush obj = Inr row
             \<and> snd (update_person person_id person db) =
                 db\<lparr>persons := replace_first person_id row (persons db)\<rparr>)"
proof (cases "update_loop person (loaded db_person)")
  case (Inl early)
  then show ?thesis using assms by (simp add: update_person_def)
next
  case (Inr obj)
  show ?thesis
  proof (cases "flush obj")
    case (Inl e)
    then show ?thesis using assms Inr by (simp add: update_person_def commit_update_def)
  next
    case row: (Inr row)
    have "id' db_person = person_id" using assms by (rule get_person_by_id_id)
    then show ?thesis
      using assms Inr row by (auto simp: update_person_def commit_update_def)
  qed
qed

lemma update_person_absent:
  "get_person_by_id person_id db = Inl e \<Longrightarrow> snd (update_person person_id person db) = db"
  by (simp add: update_person_def)

lemma update_person_ids:
  assumes "''id'' \<notin> set (map fst person)"
  shows "ids (snd (update_person person_id person db)) = ids db"
proof (cases "get_person_by_id person_id db")
  case (Inl e)
  then show ?thesis by (simp add: update_person_absent)
next
  case (Inr db_person)
  have idp: "id' db_person = person_id" using Inr by (rule get_person_by_id_id)
  from update_person_cases [OF Inr, of person] show ?thesis
  proof
    assume "snd (update_person person_id person db) = db"
    then show ?thesis by simp
  next
    assume "\<exists>obj row. update_loop person (loaded db_person) = Inr obj \<and> flush obj = Inr row
             \<and> snd (update_person person_id person db) =
                 db\<lparr>persons := replace_first person_id row (persons db)\<rparr>"
    then obtain obj row where loop: "update_loop person (loaded db_person) = Inr obj"
      and row: "flush obj = Inr row"
      and db': "snd (update_person person_id person db) =
                 db\<lparr>persons := replace_first person_id row (persons db)\<rparr>"
      by blast
    have "obj ''id'' = loaded db_person ''id''"
      using update_loop_untouched [OF loop assms] .
    then have "id' row = person_id"
      using row idp by (simp add: flush_Inr loaded_def)
    then show ?thesis
      using db' by (simp add: ids_def ids_replace_first)
  qed
qed


lemma delete_person_ids:
  "ids (snd (delete_person person_id db)) = filter (\<lambda>i. i \<noteq> person_id) (ids db)"
proof (cases "get_person_by_id person_id db")
  case (Inl e)
  then have "person_id \<notin> set (ids db)"
    using get_person_by_id_present [of person_id db] by auto
  then have "filter (\<lambda>i. i \<noteq> person_id) (ids db) = ids db"
    by (auto intro: filter_True)
  then show ?thesis using Inl by (simp add: delete_person_def)
next
  case (Inr p)
  then have "id' p = person_id" by (rule get_person_by_id_id)
  then show ?thesis using Inr by (simp add: delete_person_def ids_def filter_map comp_def)
qed

section \<open>Immutability of ids\<close>




section \<open>Truthiness of stored fields\<close>








section \<open>Create, then read\<close>
















section \<open>Validation of a Create body\<close>

lemma check_field_eq:
  "check_field kvs f ann =
     (if missing_or_wrong (PDict kvs) (f, ann)
      then [([''body'', f], if map_of kvs f = None then ''missing'' else error_kind ann)]
      else [])"
  by (auto simp: check_field_def missing_or_wrong_def field_of_def split: option.splits)

lemma offending_Str:
  "missing_or_wrong (PDict kvs) (f, Str_type) \<longleftrightarrow> \<not> (\<exists>s. map_of kvs f = Some (PStr s))"
  by (auto simp: missing_or_wrong_def field_of_def has_type_Str split: option.splits)

lemma offending_Int:
  "missing_or_wrong (PDict kvs) (f, Int_type) \<longleftrightarrow> \<not> (\<exists>i. map_of kvs f = Some (PInt i))"
  by (auto simp: missing_or_wrong_def field_of_def has_type_Int split: option.splits)

lemma validate_PersonCreate_accepts:
  assumes "map_of kvs ''name'' = Some (PStr n)" and "map_of kvs ''age'' = Some (PInt a)"
    and "map_of kvs ''address'' = Some (PStr ad)" and "map_of kvs ''work'' = Some (PStr w)"
  shows "validate_PersonCreate (PDict kvs) = Inr \<lparr>name = n, age = a, address = ad, work = w\<rparr>"
  using assms by (simp add: validate_PersonCreate_def)

lemma validate_PersonCreate_rejects:
  assumes "\<exists>fa\<in>set PersonCreate_schema. missing_or_wrong (PDict kvs) fa"
  shows "validate_PersonCreate (PDict kvs) =
           Inl (check_field kvs ''name'' Str_type @ check_field kvs ''age'' Int_type @
                check_field kvs ''address'' Str_type @ check_field kvs ''work'' Str_type)"
proof -
  have bad: "\<not> (\<exists>s. map_of kvs ''name'' = Some (PStr s))
      \<or> \<not> (\<exists>i. map_of kvs ''age'' = Some (PInt i))
      \<or> \<not> (\<exists>s. map_of kvs ''address'' = Some (PStr s))
      \<or> \<not> (\<exists>s. map_of kvs ''work'' = Some (PStr s))"
    using assms by (simp add: PersonCreate_schema_def offending_Str offending_Int)
  then show ?thesis
    unfolding validate_PersonCreate_def
    by (simp split: option.split pyval.split) blast
qed

text \<open>
  Claim C7. A Create body in which any of name, age, address, work is missing or wrongly
  typed is answered 422 with a non-empty list of \<open>(field_path, error_kind)\<close> diagnostics,
  one for each offending field of a JSON object, and \<open>create_person\<close> is never run: the
  database is untouched. The validation itself is the one modelled from the spec.
\<close>

theorem create_validation_422:
  assumes "\<exists>fa\<in>set PersonCreate_schema. missing_or_wrong body fa"
  shows "\<exists>errors. errors \<noteq> []
         \<and> app (POST_persons body) db =
             (\<lparr>status_code = 422, headers = [], content = ValidationErrors errors\<rparr>, db)
         \<and> (\<forall>kvs. body = PDict kvs \<longrightarrow>
               map fst errors =
                 map (\<lambda>(field, ann). [''body'', field])
                   (filter (missing_or_wrong body) PersonCreate_schema))"
proof (cases "\<exists>kvs. body = PDict kvs")
  case False
  then have "validate_PersonCreate body = Inl [([''body''], ''model_attributes_type'')]"
    by (cases body) (auto simp: validate_PersonCreate_def)
  then show ?thesis using False by auto
next
  case True
  then obtain kvs where body: "body = PDict kvs" by blast
  define errors where "errors = check_field kvs ''name'' Str_type @ check_field kvs ''age'' Int_type @
                check_field kvs ''address'' Str_type @ check_field kvs ''work'' Str_type"
  have v: "validate_PersonCreate body = Inl errors"
    using assms unfolding body errors_def by (rule validate_PersonCreate_rejects)
  have paths: "map fst errors =
      map (\<lambda>(field, ann). [''body'', field]) (filter (missing_or_wrong body) PersonCreate_schema)"
    by (simp add: errors_def check_field_eq body PersonCreate_schema_def)
  have "filter (missing_or_wrong body) PersonCreate_schema \<noteq> []"
    using assms by (simp add: filter_empty_conv)
  then have "map fst errors \<noteq> []" using paths by simp
  then have "errors \<noteq> []" by auto
  then show ?thesis using v paths by auto
qed

text \<open>
  A body with a string for \<open>age\<close> and neither \<open>address\<close> nor \<open>work\<close>.
\<close>

theorem create_validation_422_witness:
  "(\<exists>fa\<in>set PersonCreate_schema.
      missing_or_wrong (PDict [(''name'', PStr ''John Doe''), (''age'', PStr ''thirty'')]) fa)
   \<and> (\<exists>errors. errors \<noteq> []
         \<and> app (POST_persons (PDict [(''name'', PStr ''John Doe''), (''age'', PStr ''thirty'')]))
               john_db =
             (\<lparr>status_code = 422, headers = [], content = ValidationErrors errors\<rparr>, john_db))
   \<and> app (POST_persons (PDict [(''name'', PStr ''John Doe''), (''age'', PStr ''thirty'')])) john_db =
       (\<lparr>status_code = 422, headers = [],
         content = ValidationErrors [([''body'', ''age''], ''int_type''),
                                     ([''body'', ''address''], ''missing''),
                                     ([''body'', ''work''], ''missing'')]\<rparr>, john_db)"
proof -
  let ?body = "PDict [(''name'', PStr ''John Doe''), (''age'', PStr ''thirty'')]"
  have a: "\<exists>fa\<in>set PersonCreate_schema. missing_or_wrong ?body fa"
    by (simp add: PersonCreate_schema_def missing_or_wrong_def field_of_def)
  have b: "\<exists>errors. errors \<noteq> []
         \<and> app (POST_persons ?body) john_db =
             (\<lparr>status_code = 422, headers = [], content = ValidationErrors errors\<rparr>, john_db)"
    using create_validation_422 [OF a, of john_db] by blast
  have c: "app (POST_persons ?body) john_db =
       (\<lparr>status_code = 422, headers = [],
         content = ValidationErrors [([''body'', ''age''], ''int_type''),
                                     ([''body'', ''address''], ''missing''),
                                     ([''body'', ''work''], ''missing'')]\<rparr>, john_db)"
    by (simp add: validate_PersonCreate_def check_field_def)
  show ?thesis
    by (rule conjI [OF a conjI [OF b c]])
qed

section \<open>Listing after N creates\<close>

lemma sequence_ahead_fresh:
  "sequence_ahead db \<Longrightarrow> persons_id_seq db + 1 \<notin> set (ids db)"
  by (auto simp: sequence_ahead_def list_all_iff)

lemma create_person_fresh:
  assumes "sequence_ahead db"
  shows "create_person person db =
           (created (persons_id_seq db + 1),
            \<lparr>persons = persons db @ [row_of person (persons_id_seq db + 1)],
             persons_id_seq = persons_id_seq db + 1\<rparr>)"
  using sequence_ahead_fresh [OF assms]
  by (simp add: create_person_def Let_def created_def row_of_def)

lemma sequence_ahead_create:
  assumes "sequence_ahead db"
  shows "sequence_ahead (snd (create_person person db))"
  using assms
  by (auto simp: create_person_fresh [OF assms] sequence_ahead_def ids_def list_all_iff row_of_def)

lemma creates_fresh:
  assumes "sequence_ahead db"
  shows "creates people db =
           (map created [persons_id_seq db + 1..persons_id_seq db + int (length people)],
            \<lparr>persons = persons db @
               map2 (\<lambda>i person. row_of person i)
                 [persons_id_seq db + 1..persons_id_seq db + int (length people)] people,
             persons_id_seq = persons_id_seq db + int (length people)\<rparr>)"
  using assms
proof (induction people arbitrary: db)
  case Nil
  then show ?case by simp
next
  case (Cons person rest)
  let ?n = "persons_id_seq db + 1"
  let ?db = "\<lparr>persons = persons db @ [row_of person ?n], persons_id_seq = ?n\<rparr>"
  have step: "create_person person db = (created ?n, ?db)"
    by (rule create_person_fresh [OF Cons.prems])
  have ahead: "sequence_ahead ?db"
    using sequence_ahead_create [OF Cons.prems, of person] step by simp
  have upto: "[?n..persons_id_seq db + int (length (person # rest))] =
      ?n # [?n + 1..?n + int (length rest)]"
    by (subst upto_rec1) (simp_all add: add.commute add.left_commute)
  show ?case
    using Cons.IH [OF ahead] step upto by (simp add: add.commute add.left_commute)
qed

lemma sequence_ahead_empty: "sequence_ahead empty_database"
  by (simp add: sequence_ahead_def empty_database_def ids_def)

lemma update_person_seq:
  "persons_id_seq (snd (update_person person_id person db)) = persons_id_seq db"
proof (cases "get_person_by_id person_id db")
  case (Inl e)
  then show ?thesis by (simp add: update_person_absent)
next
  case (Inr db_person)
  from update_person_cases [OF Inr, of person] show ?thesis by auto
qed

lemma app_sequence_ahead:
  assumes "\<not> names_id r" and "sequence_ahead db"
  shows "sequence_ahead (snd (app r db))"
proof (cases r)
  case (GET_person i)
  then show ?thesis using assms(2) by (simp add: read_person_def split: sum.splits)
next
  case GET_persons
  then show ?thesis using assms(2) by (simp add: read_persons_def)
next
  case (POST_persons body)
  then show ?thesis
    using assms(2) sequence_ahead_create [OF assms(2)]
    by (cases "validate_PersonCreate body") simp_all
next
  case (PATCH_person i person)
  then have "''id'' \<notin> set (map fst person)" using assms(1) by simp
  then show ?thesis
    using PATCH_person assms(2) by (simp add: sequence_ahead_def update_person_ids update_person_seq)
next
  case (DELETE_person j)
  have "persons_id_seq (snd (delete_person j db)) = persons_id_seq db"
    by (simp add: delete_person_def split: sum.splits)
  then show ?thesis
    using DELETE_person assms(2)
    by (simp add: sequence_ahead_def delete_person_ids list_all_iff)
qed

lemma run_sequence_ahead:
  "list_all (\<lambda>r. \<not> names_id r) rs \<Longrightarrow> sequence_ahead db \<Longrightarrow> sequence_ahead (run rs db)"
  by (induction rs arbitrary: db) (auto simp: app_sequence_ahead)

lemma fresh_id_reachable:
  "list_all (\<lambda>r. \<not> names_id r) rs \<Longrightarrow>
     persons_id_seq (run rs empty_database) + 1 \<notin> set (ids (run rs empty_database))"
  by (intro sequence_ahead_fresh run_sequence_ahead sequence_ahead_empty)

text \<open>
  Claim C8. Starting from the empty database, N Creates in a row all succeed (the k-th
  answers 201 with \<open>Location: /persons/k\<close>), and GET \<open>/persons\<close> then answers 200 with
  exactly N records in creation order: the k-th record carries the k-th payload and the id
  k, so the ids ascend from 1 to N.
\<close>

theorem read_persons_after_creates:
  "fst (creates people empty_database) = map created [1..int (length people)]
   \<and> app GET_persons (snd (creates people empty_database)) =
       (\<lparr>status_code = 200, headers = [],
         content = Persons (map2 (\<lambda>i person. \<lparr>name = name person, age = age person,
                                                address = address person, work = work person,
                                                id' = i\<rparr>)
                             [1..int (length people)] people)\<rparr>,
        snd (creates people empty_database))
   \<and> length (persons (snd (creates people empty_database))) = length people
   \<and> ids (snd (creates people empty_database)) = [1..int (length people)]"
proof -
  let ?n = "int (length people)"
  let ?rows = "map2 (\<lambda>i person. \<lparr>name = name person, age = age person,
                                       address = address person, work = work person,
                                       id' = i\<rparr>) [1..?n] people"
  have run: "creates people empty_database =
      (map created [1..?n], \<lparr>persons = ?rows, persons_id_seq = ?n\<rparr>)"
    using creates_fresh [OF sequence_ahead_empty, of people]
    unfolding row_of_def by (simp add: empty_database_def)
  have len: "length [1..?n] = length people"
    by simp
  have "map id' ?rows = map fst (zip [1..?n] people)"
    by (rule map_cong [OF refl, THEN trans [OF map_map]]) auto
  also have "\<dots> = [1..?n]"
    using len by (rule map_fst_zip)
  finally have ids: "map id' ?rows = [1..?n]" .
  have length: "length ?rows = length people"
    using len by simp
  show ?thesis
    unfolding run using ids length by (simp add: read_persons_def ids_def)
qed

text \<open>
  The two Creates of the test suite, then the list.
\<close>

theorem read_persons_after_creates_witness:
  "fst (creates [TEST_PERSON_DATA, TEST_PERSON_UPDATE] empty_database) = [created 1, created 2]
   \<and> app GET_persons (snd (creates [TEST_PERSON_DATA, TEST_PERSON_UPDATE] empty_database)) =
       (\<lparr>status_code = 200, headers = [],
         content = Persons
           [\<lparr>name = ''John Doe'', age = 30, address = ''123'', work = ''123'', id' = 1\<rparr>,
            \<lparr>name = ''Jane Smith'', age = 25, address = ''456'', work = ''456'', id' = 2\<rparr>]\<rparr>,
        snd (creates [TEST_PERSON_DATA, TEST_PERSON_UPDATE] empty_database))"
proof -
  have upto: "[1..int (length [TEST_PERSON_DATA, TEST_PERSON_UPDATE])] = [1, 2]"
    by (simp add: upto_rec1)
  show ?thesis
    using read_persons_after_creates [of "[TEST_PERSON_DATA, TEST_PERSON_UPDATE]"]
    unfolding upto
    by (simp del: creates.simps app.simps add: TEST_PERSON_DATA_def TEST_PERSON_UPDATE_def)
qed

end
